theory Spec2Isabelle
  imports Main "HOL-Library.Word"
begin

section \<open>Python values used by the parser\<close>

text \<open>
  A Python \<open>str\<close> is a sequence of Unicode code points, so it is modelled as a list of
  natural numbers (one per code point); \<open>bytes\<close> is a list of 8-bit words. A literal of the
  source is written \<open>lit ''...''\<close>.
\<close>

type_synonym pystr = "nat list"
type_synonym bytes = "8 word list"

definition lit :: "string \<Rightarrow> pystr" where
  "lit s = map of_char s"

text \<open>
  \<open>str.isspace\<close> for one code point: the white-space table of CPython
  (U+0009..U+000D, U+001C..U+0020, U+0085, U+00A0, U+1680, U+2000..U+200A, U+2028,
  U+2029, U+202F, U+205F, U+3000).
\<close>

definition isspace :: "nat \<Rightarrow> bool" where
  "isspace c \<longleftrightarrow>
     (9 \<le> c \<and> c \<le> 13) \<or> (28 \<le> c \<and> c \<le> 32) \<or> c = 133 \<or> c = 160 \<or> c = 5760 \<or>
     (8192 \<le> c \<and> c \<le> 8202) \<or> c = 8232 \<or> c = 8233 \<or> c = 8239 \<or> c = 8287 \<or>
     c = 12288"

text \<open>\<open>s.strip()\<close>: drop the leading and the trailing white space.\<close>

definition strip :: "pystr \<Rightarrow> pystr" where
  "strip s = rev (dropWhile isspace (rev (dropWhile isspace s)))"

text \<open>\<open>x or None\<close> and \<open>x or ""\<close> on strings: the empty string is falsy.\<close>

definition or_None :: "pystr \<Rightarrow> pystr option" where
  "or_None s = (if s = [] then None else Some s)"

definition or_empty :: "pystr option \<Rightarrow> pystr" where
  "or_empty v = (case v of None \<Rightarrow> [] | Some s \<Rightarrow> (if s = [] then [] else s))"

text \<open>\<open>d or {}\<close> on an optional dictionary: \<open>None\<close> and the empty dictionary are falsy.\<close>

definition or_dict :: "('k \<rightharpoonup> 'v) option \<Rightarrow> ('k \<rightharpoonup> 'v)" where
  "or_dict v = (case v of None \<Rightarrow> Map.empty | Some d \<Rightarrow> d)"

text \<open>\<open>str(n)\<close> for a non-negative integer, as the f-string of the warning formats it.\<close>

fun str_nat :: "nat \<Rightarrow> pystr" where
  "str_nat n = (if n < 10 then [48 + n] else str_nat (n div 10) @ [48 + n mod 10])"

declare str_nat.simps [simp del]

text \<open>\<open>sub in s\<close> on strings.\<close>

fun starts_with :: "pystr \<Rightarrow> pystr \<Rightarrow> bool" where
  "starts_with s [] = True"
| "starts_with [] (c # cs) = False"
| "starts_with (x # xs) (c # cs) = (x = c \<and> starts_with xs cs)"

fun contains :: "pystr \<Rightarrow> pystr \<Rightarrow> bool" where
  "contains [] sub = (sub = [])"
| "contains (x # xs) sub = (starts_with (x # xs) sub \<or> contains xs sub)"

section \<open>The pypdf library, as the parser observes it\<close>

text \<open>
  The exceptions that reach the callers: \<open>pypdf.errors.PdfReadError\<close>, the two that
  \<open>parse_pdf\<close> raises itself, and any other exception. Each carries \<open>str(exc)\<close>.
\<close>

datatype exn =
    PdfReadError pystr
  | FileNotFoundError pystr
  | ValueError pystr
  | OtherException pystr

text \<open>An entry of the Info dictionary; the parser only takes \<open>str(value)\<close> of it.\<close>

datatype pdf_object = PdfObject (py_str: pystr)

text \<open>A page of the reader: what \<open>page.extract_text()\<close> returns or raises.\<close>

record pdf_page =
  extract_text :: "exn + pystr option"

text \<open>
  A \<open>pypdf.PdfReader\<close>: \<open>reader.metadata\<close> (the Info dictionary or \<open>None\<close>) and
  \<open>reader.pages\<close>, each of which may raise on a damaged file. The non-strict reader repairs
  some structural damage and only writes it to the log; \<open>logged_damage\<close> records that it
  did. The parser never reads the log.
\<close>

record reader =
  reader_metadata :: "exn + (pystr \<rightharpoonup> pdf_object) option"
  reader_pages :: "exn + pdf_page list"
  logged_damage :: bool

section \<open>pdf\_parser/parser.py\<close>

record metadata =
  title :: "pystr option"
  author :: "pystr option"
  creation_date :: "pystr option"
  num_pages :: nat

record page_entry =
  page :: nat
  text' :: pystr

record extraction_result =
  metadata :: metadata
  pages :: "page_entry list"
  warnings :: "pystr list"

text \<open>The inner function \<open>_clean\<close> of \<open>_extract_metadata\<close>; its argument is \<open>meta.get(key)\<close>.\<close>

definition clean :: "pdf_object option \<Rightarrow> pystr option" where
  "clean v = (case v of None \<Rightarrow> None | Some x \<Rightarrow> or_None (strip (py_str x)))"

text \<open>\<open>_extract_metadata\<close>.\<close>

definition extract_metadata :: "reader \<Rightarrow> exn + metadata" where
  "extract_metadata rd =
     (case reader_metadata rd of
        Inl e \<Rightarrow> Inl e
      | Inr m \<Rightarrow>
          (let meta = or_dict m in
           case reader_pages rd of
             Inl e \<Rightarrow> Inl e
           | Inr ps \<Rightarrow>
               Inr \<lparr>title = clean (meta (lit ''/Title'')),
                    author = clean (meta (lit ''/Author'')),
                    creation_date = clean (meta (lit ''/CreationDate'')),
                    num_pages = length ps\<rparr>))"

text \<open>
  The \<open>for\<close> loop of \<open>_extract_pages\<close> over \<open>enumerate(reader.pages, start=1)\<close>: the state is
  the list \<open>pages\<close> and the counter \<open>image_only_pages\<close>; an exception of
  \<open>extract_text\<close> leaves the loop.
\<close>

fun extract_loop ::
  "nat \<Rightarrow> pdf_page list \<Rightarrow> page_entry list \<Rightarrow> nat \<Rightarrow> exn + (page_entry list \<times> nat)" where
  "extract_loop i [] acc image_only_pages = Inr (acc, image_only_pages)"
| "extract_loop i (p # ps) acc image_only_pages =
     (case extract_text p of
        Inl e \<Rightarrow> Inl e
      | Inr t \<Rightarrow>
          (let txt = strip (or_empty t) in
           extract_loop (i + 1) ps (acc @ [\<lparr>page = i, text' = txt\<rparr>])
             (if txt = [] then image_only_pages + 1 else image_only_pages)))"

definition scanned_warning :: pystr where
  "scanned_warning =
     lit ''This PDF appears to be a scanned/image-only document. '' @
     lit ''No text could be extracted. Consider using an OCR tool '' @
     lit ''(e.g. ocrmypdf or Tesseract) to convert it first.''"

definition partial_warning :: "nat \<Rightarrow> nat \<Rightarrow> pystr" where
  "partial_warning image_only_pages total' =
     str_nat image_only_pages @ lit '' of '' @ str_nat total' @
     lit '' page(s) appear to be '' @
     lit ''image-only and yielded no extractable text.''"

text \<open>The aggregate warning computed after the loop.\<close>

definition image_only_warnings :: "nat \<Rightarrow> nat \<Rightarrow> pystr list" where
  "image_only_warnings image_only_pages total' =
     (if image_only_pages > 0 then
        (if image_only_pages = total' then [scanned_warning]
         else [partial_warning image_only_pages total'])
      else [])"

text \<open>\<open>_extract_pages\<close>.\<close>

definition extract_pages :: "reader \<Rightarrow> exn + (page_entry list \<times> pystr list)" where
  "extract_pages rd =
     (case reader_pages rd of
        Inl e \<Rightarrow> Inl e
      | Inr ps \<Rightarrow>
          (case extract_loop 1 ps [] 0 of
             Inl e \<Rightarrow> Inl e
           | Inr (pgs, image_only_pages) \<Rightarrow>
               Inr (pgs, image_only_warnings image_only_pages (length ps))))"

text \<open>
  \<open>parse_pdf_bytes\<close>. The constructor \<open>pypdf.PdfReader(io.BytesIO(data))\<close> is the parameter
  \<open>PdfReader\<close>: it returns a reader or raises.
\<close>

definition parse_pdf_bytes :: "(bytes \<Rightarrow> exn + reader) \<Rightarrow> bytes \<Rightarrow> exn + extraction_result" where
  "parse_pdf_bytes PdfReader data =
     (case PdfReader data of
        Inl e \<Rightarrow> Inl e
      | Inr rd \<Rightarrow>
          (case extract_metadata rd of
             Inl e \<Rightarrow> Inl e
           | Inr md \<Rightarrow>
               (case extract_pages rd of
                  Inl e \<Rightarrow> Inl e
                | Inr (pgs, ws) \<Rightarrow> Inr \<lparr>metadata = md, pages = pgs, warnings = ws\<rparr>)))"

text \<open>
  \<open>str(Path(path))\<close> on a POSIX system. \<open>pathlib\<close> keeps the root (\<open>/\<close>, or \<open>//\<close> when the
  string starts with exactly two slashes), splits the rest at \<open>/\<close>, drops the empty
  components and the components \<open>.\<close>, and joins what is left; the empty path prints as
  \<open>.\<close>. So \<open>/srv/\<close> prints as \<open>/srv\<close> and \<open>a//b/./c\<close> as \<open>a/b/c\<close>.
\<close>

fun split_sep :: "nat \<Rightarrow> pystr \<Rightarrow> pystr list" where
  "split_sep c [] = [[]]"
| "split_sep c (x # xs) =
     (if x = c then [] # split_sep c xs
      else (case split_sep c xs of [] \<Rightarrow> [[x]] | y # ys \<Rightarrow> (x # y) # ys))"

fun join_sep :: "nat \<Rightarrow> pystr list \<Rightarrow> pystr" where
  "join_sep c [] = []"
| "join_sep c [p] = p"
| "join_sep c (p # q # ps) = p @ c # join_sep c (q # ps)"

definition path_root :: "pystr \<Rightarrow> pystr" where
  "path_root p =
     (if take 1 p \<noteq> [47] then []
      else if take 1 (drop 1 p) \<noteq> [47] \<or> take 1 (drop 2 p) = [47] then [47]
      else [47, 47])"

definition Path_str :: "pystr \<Rightarrow> pystr" where
  "Path_str p =
     (let root = path_root p;
          parts = filter (\<lambda>x. x \<noteq> [] \<and> x \<noteq> [46]) (split_sep 47 (drop (length root) p));
          s = root @ join_sep 47 parts
      in if s = [] then [46] else s)"

text \<open>
  What the operating system answers for a path:
  \<^item> \<open>Missing\<close>: nothing has this name, and \<open>path.exists()\<close> is false;
  \<^item> \<open>NameTooLong msg\<close>: the name is longer than the file system allows, so nothing has
    it, and \<open>path.exists()\<close> raises \<open>OSError\<close> with the message \<open>msg\<close> (pathlib only turns
    the errors "no such file" and a few others into \<open>False\<close>);
  \<^item> \<open>StatError msg\<close>: \<open>path.exists()\<close> raises another \<open>OSError\<close>, such as permission
    denied on a directory of the path;
  \<^item> \<open>NotRegular\<close>: the path exists and \<open>path.is_file()\<close> is false, as for a directory;
  \<^item> \<open>UnreadableFile msg\<close>: a regular file for which \<open>path.read_bytes()\<close> raises \<open>OSError\<close>;
  \<^item> \<open>RegularFile data\<close>: a regular file, and \<open>path.read_bytes()\<close> returns \<open>data\<close>.

  A file system maps the printed form of a \<open>Path\<close> to its answer.
\<close>

datatype fs_node =
    Missing
  | NameTooLong pystr
  | StatError pystr
  | NotRegular
  | UnreadableFile pystr
  | RegularFile bytes

type_synonym filesystem = "pystr \<Rightarrow> fs_node"

text \<open>
  \<open>parse_pdf\<close>: \<open>Path(path)\<close>, then the two checks in the order of the source, then the
  read. An \<open>OSError\<close> of \<open>exists()\<close> or of \<open>read_bytes()\<close> leaves the function as it is.
\<close>

definition parse_pdf ::
  "(bytes \<Rightarrow> exn + reader) \<Rightarrow> filesystem \<Rightarrow> pystr \<Rightarrow> exn + extraction_result" where
  "parse_pdf PdfReader fs path =
     (case fs (Path_str path) of
        NameTooLong msg \<Rightarrow> Inl (OtherException msg)
      | StatError msg \<Rightarrow> Inl (OtherException msg)
      | Missing \<Rightarrow> Inl (FileNotFoundError (lit ''PDF file not found: '' @ Path_str path))
      | NotRegular \<Rightarrow> Inl (ValueError (lit ''Path is not a file: '' @ Path_str path))
      | UnreadableFile msg \<Rightarrow> Inl (OtherException msg)
      | RegularFile data \<Rightarrow> parse_pdf_bytes PdfReader data)"

section \<open>app.py\<close>

text \<open>\<open>str(exc)\<close>.\<close>

fun exn_str :: "exn \<Rightarrow> pystr" where
  "exn_str (PdfReadError m) = m"
| "exn_str (FileNotFoundError m) = m"
| "exn_str (ValueError m) = m"
| "exn_str (OtherException m) = m"

text \<open>
  \<open>s.lower()\<close> and \<open>s.endswith(suffix)\<close>. Only the ASCII letters are mapped: no other code
  point has \<open>.\<close>, \<open>p\<close>, \<open>d\<close> or \<open>f\<close> in its lower-case form, so the test of the file name
  below does not depend on the rest of the Unicode table.
\<close>

definition lower_char :: "nat \<Rightarrow> nat" where
  "lower_char c = (if 65 \<le> c \<and> c \<le> 90 then c + 32 else c)"

definition lower :: "pystr \<Rightarrow> pystr" where
  "lower s = map lower_char s"

definition endswith :: "pystr \<Rightarrow> pystr \<Rightarrow> bool" where
  "endswith s suffix \<longleftrightarrow> take (length suffix) (rev s) = rev suffix"

text \<open>\<open>app.config["MAX_CONTENT_LENGTH"]\<close>.\<close>

definition MAX_CONTENT_LENGTH :: nat where
  "MAX_CONTENT_LENGTH = 50 * 1024 * 1024"

text \<open>
  A response: the status code and the body, which is \<open>jsonify({"error": msg})\<close>,
  \<open>jsonify(result)\<close>, or the page that Flask itself produces for an error it handles
  (a request that is too large, an exception that no handler catches).
\<close>

datatype body = JsonError pystr | JsonResult extraction_result | FrameworkPage

record response =
  status :: nat
  response_body :: body

text \<open>
  An upload: the content length of the request, whether the multipart body runs into one
  of the limits that Werkzeug's form parser has of its own (with Flask's defaults, more
  than 1000 parts or a form field of more than 500000 bytes), and its file fields; a
  field has a file name and the bytes that \<open>uploaded.read()\<close> returns.
\<close>

record file_storage =
  filename :: pystr
  file_data :: bytes

record upload_request =
  content_length :: nat
  form_limit_exceeded :: bool
  files :: "pystr \<rightharpoonup> file_storage"

text \<open>
  \<open>request.files\<close>: Flask refuses to read a body longer than \<open>MAX_CONTENT_LENGTH\<close>, and
  the form parser stops at its own limits; both answer 413 (Request Entity Too Large).
\<close>

definition request_files :: "upload_request \<Rightarrow> response + (pystr \<rightharpoonup> file_storage)" where
  "request_files req =
     (if content_length req > MAX_CONTENT_LENGTH \<or> form_limit_exceeded req
      then Inl \<lparr>status = 413, response_body = FrameworkPage\<rparr>
      else Inr (files req))"

text \<open>\<open>api_parse_upload\<close>, the handler of \<open>POST /parse\<close>.\<close>

definition api_parse_upload :: "(bytes \<Rightarrow> exn + reader) \<Rightarrow> upload_request \<Rightarrow> response" where
  "api_parse_upload PdfReader req =
     (case request_files req of
        Inl too_large \<Rightarrow> too_large
      | Inr fls \<Rightarrow>
          (case fls (lit ''file'') of
             None \<Rightarrow> \<lparr>status = 400, response_body = JsonError (lit ''No file field in request'')\<rparr>
           | Some uploaded \<Rightarrow>
               if filename uploaded = [] then
                 \<lparr>status = 400, response_body = JsonError (lit ''Empty filename'')\<rparr>
               else if \<not> endswith (lower (filename uploaded)) (lit ''.pdf'') then
                 \<lparr>status = 400, response_body = JsonError (lit ''Uploaded file must be a PDF'')\<rparr>
               else
                 (case parse_pdf_bytes PdfReader (file_data uploaded) of
                    Inl (PdfReadError m) \<Rightarrow>
                      \<lparr>status = 422,
                       response_body = JsonError (lit ''Invalid or corrupted PDF: '' @ m)\<rparr>
                  | Inl e \<Rightarrow> \<lparr>status = 500, response_body = JsonError (exn_str e)\<rparr>
                  | Inr result \<Rightarrow> \<lparr>status = 200, response_body = JsonResult result\<rparr>)))"

text \<open>
  What \<open>request.get_json(silent=True)\<close> returned to \<open>api_parse_path\<close>: a dictionary, a
  falsy value (\<open>None\<close> when the body is not JSON, or \<open>0\<close>, \<open>""\<close>, \<open>[]\<close>, \<open>false\<close>), which
  \<open>or {}\<close> replaces by the empty dictionary, or a truthy value that is not a dictionary.
  A value under a key is a string or something else.
\<close>

datatype json_value = JsonString pystr | JsonOther

datatype json_body = JsonDict "pystr \<rightharpoonup> json_value" | JsonFalsy | JsonTruthy




section \<open>Notions of the specification\<close>

text \<open>The number of result entries whose text is the empty string.\<close>

definition image_only_count :: "page_entry list \<Rightarrow> nat" where
  "image_only_count pgs = length (filter (\<lambda>e. text' e = []) pgs)"

text \<open>A string has no leading and no trailing white space.\<close>

definition no_outer_space :: "pystr \<Rightarrow> bool" where
  "no_outer_space s \<longleftrightarrow> s = [] \<or> (\<not> isspace (hd s) \<and> \<not> isspace (last s))"

text \<open>
  The value the specification asks for a metadata field: absent when the Info dictionary
  has no such key or when the value is empty after trimming, the trimmed value otherwise.
\<close>

definition reported_field :: "(pystr \<rightharpoonup> pdf_object) \<Rightarrow> pystr \<Rightarrow> pystr option" where
  "reported_field info key =
     (case info key of
        None \<Rightarrow> None
      | Some v \<Rightarrow> (if strip (py_str v) = [] then None else Some (strip (py_str v))))"

text \<open>
  The last four code points of a file name spell \<open>.pdf\<close> in any mix of upper and lower
  case.
\<close>

definition pdf_name_hint :: "pystr \<Rightarrow> bool" where
  "pdf_name_hint name \<longleftrightarrow>
     (case rev name of
        c # b # a # dot # _ \<Rightarrow>
          dot = 46 \<and> (a = 80 \<or> a = 112) \<and> (b = 68 \<or> b = 100) \<and> (c = 70 \<or> c = 102)
      | _ \<Rightarrow> False)"


text \<open>
  An upload that the endpoint must reject without parsing: it is larger than 50 MiB, or it
  has no file field, an empty file name or a file name without the \<open>.pdf\<close> hint.
\<close>

definition upload_rejected :: "upload_request \<Rightarrow> bool" where
  "upload_rejected req \<longleftrightarrow>
     content_length req > 50 * 2 ^ 20 \<or>
     (case files req (lit ''file'') of
        None \<Rightarrow> True
      | Some uploaded \<Rightarrow> filename uploaded = [] \<or> \<not> pdf_name_hint (filename uploaded))"

section \<open>Sample inputs\<close>

text \<open>
  A three-page document: one page with text, one page for which the library returns
  nothing, one page of white space only. Its title has surrounding blanks, its author is
  blank, and it has no creation date.
\<close>

definition sample_pages :: "pdf_page list" where
  "sample_pages =
     [\<lparr>extract_text = Inr (Some (lit '' Hello, World! ''))\<rparr>,
      \<lparr>extract_text = Inr None\<rparr>,
      \<lparr>extract_text = Inr (Some (lit ''  ''))\<rparr>]"

definition sample_info :: "pystr \<rightharpoonup> pdf_object" where
  "sample_info =
     [lit ''/Title'' \<mapsto> PdfObject (lit '' Report ''),
      lit ''/Author'' \<mapsto> PdfObject (lit ''   '')]"

definition sample_reader :: reader where
  "sample_reader =
     \<lparr>reader_metadata = Inr (Some sample_info), reader_pages = Inr sample_pages,
      logged_damage = False\<rparr>"

definition sample_bytes :: bytes where
  "sample_bytes = [37, 80, 68, 70]"

text \<open>A library that reads the sample bytes and rejects everything else.\<close>

definition sample_PdfReader :: "bytes \<Rightarrow> exn + reader" where
  "sample_PdfReader data =
     (if data = sample_bytes then Inr sample_reader
      else Inl (PdfReadError (lit ''EOF marker not found'')))"

definition sample_result :: extraction_result where
  "sample_result =
     \<lparr>metadata = \<lparr>title = Some (lit ''Report''), author = None, creation_date = None,
                  num_pages = 3\<rparr>,
      pages = [\<lparr>page = 1, text' = lit ''Hello, World!''\<rparr>,
               \<lparr>page = 2, text' = []\<rparr>,
               \<lparr>page = 3, text' = []\<rparr>],
      warnings = [lit ''2 of 3 page(s) appear to be image-only and yielded no extractable text.'']\<rparr>"

text \<open>
  A one-page document with text whose cross-reference table the library had to rebuild,
  and a library that returns it for every input.
\<close>

definition repaired_reader :: reader where
  "repaired_reader =
     \<lparr>reader_metadata = Inr None,
      reader_pages = Inr [\<lparr>extract_text = Inr (Some (lit ''Hello''))\<rparr>],
      logged_damage = True\<rparr>"

definition repairing_PdfReader :: "bytes \<Rightarrow> exn + reader" where
  "repairing_PdfReader data = Inr repaired_reader"

definition repaired_result :: extraction_result where
  "repaired_result =
     \<lparr>metadata = \<lparr>title = None, author = None, creation_date = None, num_pages = 1\<rparr>,
      pages = [\<lparr>page = 1, text' = lit ''Hello''\<rparr>],
      warnings = []\<rparr>"

text \<open>A document of one blank page, and a library that returns it for every input.\<close>

definition blank_reader :: reader where
  "blank_reader =
     \<lparr>reader_metadata = Inr None, reader_pages = Inr [\<lparr>extract_text = Inr (Some [])\<rparr>],
      logged_damage = False\<rparr>"

definition blank_PdfReader :: "bytes \<Rightarrow> exn + reader" where
  "blank_PdfReader data = Inr blank_reader"

definition blank_result :: extraction_result where
  "blank_result =
     \<lparr>metadata = \<lparr>title = None, author = None, creation_date = None, num_pages = 1\<rparr>,
      pages = [\<lparr>page = 1, text' = []\<rparr>],
      warnings = [scanned_warning]\<rparr>"

text \<open>
  A name of 256 letters \<open>a\<close>, one more than a file name may have, and the message of the
  \<open>OSError\<close> that the operating system raises for it.
\<close>

definition long_name :: pystr where
  "long_name = replicate 256 97"

definition long_name_error :: pystr where
  "long_name_error = lit ''[Errno 36] File name too long: '' @ [39] @ long_name @ [39]"

text \<open>A file system with the sample document and a directory.\<close>

definition sample_fs :: filesystem where
  "sample_fs p =
     (if p = lit ''/srv/a.pdf'' then RegularFile sample_bytes
      else if p = lit ''/srv'' then NotRegular
      else if p = long_name then NameTooLong long_name_error
      else Missing)"

text \<open>
  Four uploads: the sample document, a text file, the sample document among 1001 parts,
  and a body of 50 MiB plus one byte.
\<close>

definition sample_upload :: upload_request where
  "sample_upload =
     \<lparr>content_length = 320, form_limit_exceeded = False,
      files = [lit ''file'' \<mapsto> \<lparr>filename = lit ''Report.PDF'', file_data = sample_bytes\<rparr>]\<rparr>"

definition text_upload :: upload_request where
  "text_upload =
     \<lparr>content_length = 320, form_limit_exceeded = False,
      files = [lit ''file'' \<mapsto> \<lparr>filename = lit ''notes.txt'', file_data = sample_bytes\<rparr>]\<rparr>"

definition many_parts_upload :: upload_request where
  "many_parts_upload =
     \<lparr>content_length = 115000, form_limit_exceeded = True,
      files = [lit ''file'' \<mapsto> \<lparr>filename = lit ''Report.PDF'', file_data = sample_bytes\<rparr>]\<rparr>"

definition oversized_upload :: upload_request where
  "oversized_upload =
     \<lparr>content_length = 52428801, form_limit_exceeded = False,
      files = [lit ''file'' \<mapsto> \<lparr>filename = lit ''Report.PDF'', file_data = sample_bytes\<rparr>]\<rparr>"

section \<open>Evaluating the samples\<close>

lemma sample_parse: "parse_pdf_bytes sample_PdfReader sample_bytes = Inr sample_result"
  by (simp add: parse_pdf_bytes_def sample_PdfReader_def sample_reader_def sample_result_def
      extract_metadata_def extract_pages_def sample_pages_def sample_info_def clean_def
      or_dict_def or_None_def or_empty_def strip_def isspace_def lit_def
      image_only_warnings_def partial_warning_def str_nat.simps Let_def)

lemma repaired_parse: "parse_pdf_bytes repairing_PdfReader [] = Inr repaired_result"
  by (simp add: parse_pdf_bytes_def repairing_PdfReader_def repaired_reader_def
      repaired_result_def extract_metadata_def extract_pages_def clean_def
      or_dict_def or_None_def or_empty_def strip_def isspace_def lit_def
      image_only_warnings_def Let_def)

lemma blank_parse: "parse_pdf_bytes blank_PdfReader [] = Inr blank_result"
  by (simp add: parse_pdf_bytes_def blank_PdfReader_def blank_reader_def blank_result_def
      extract_metadata_def extract_pages_def clean_def or_dict_def or_empty_def strip_def
      image_only_warnings_def Let_def)

section \<open>Trimming\<close>

lemma strip_empty_iff: "strip s = [] \<longleftrightarrow> (\<forall>c \<in> set s. isspace c)"
proof -
  have "strip s = [] \<longleftrightarrow> dropWhile isspace (rev (dropWhile isspace s)) = []"
    by (simp add: strip_def)
  also have "\<dots> \<longleftrightarrow> (\<forall>c \<in> set (dropWhile isspace s). isspace c)"
    by (simp add: dropWhile_eq_Nil_conv)
  also have "\<dots> \<longleftrightarrow> dropWhile isspace s = []"
  proof
    assume a: "\<forall>c \<in> set (dropWhile isspace s). isspace c"
    show "dropWhile isspace s = []"
    proof (rule ccontr)
      assume n: "dropWhile isspace s \<noteq> []"
      then have "\<not> isspace (hd (dropWhile isspace s))"
        by (rule hd_dropWhile)
      moreover have "hd (dropWhile isspace s) \<in> set (dropWhile isspace s)"
        using n by simp
      ultimately show False using a by blast
    qed
  qed (auto dest: set_dropWhileD)
  also have "\<dots> \<longleftrightarrow> (\<forall>c \<in> set s. isspace c)"
    by (simp add: dropWhile_eq_Nil_conv)
  finally show ?thesis .
qed

lemma last_dropWhile_nonempty: "dropWhile P xs \<noteq> [] \<Longrightarrow> last (dropWhile P xs) = last xs"
  by (induction xs) (auto split: if_splits)

lemma strip_no_outer_space: "no_outer_space (strip s)"
proof (cases "strip s = []")
  case True
  then show ?thesis by (simp add: no_outer_space_def)
next
  case False
  let ?a = "dropWhile isspace s"
  let ?b = "dropWhile isspace (rev ?a)"
  from False have b: "?b \<noteq> []"
    by (simp add: strip_def)
  have a: "?a \<noteq> []"
  proof
    assume e: "?a = []"
    show False using b unfolding e by simp
  qed
  have "last (strip s) = hd ?b"
    using b by (simp add: strip_def last_rev)
  then have l: "\<not> isspace (last (strip s))"
    using hd_dropWhile [OF b] by simp
  have "hd (strip s) = last ?b"
    using b by (simp add: strip_def hd_rev)
  also have "\<dots> = last (rev ?a)"
    using b by (rule last_dropWhile_nonempty)
  also have "\<dots> = hd ?a"
    using a by (simp add: last_rev)
  finally have "\<not> isspace (hd (strip s))"
    using hd_dropWhile [OF a] by simp
  with l show ?thesis
    by (simp add: no_outer_space_def)
qed

section \<open>The page loop and the shape of a parse result\<close>

lemma extract_loop_closed:
  "extract_loop i ps acc n = Inr (pgs, k) \<Longrightarrow>
   \<exists>ts. map extract_text ps = map Inr ts \<and>
        pgs = acc @ map (\<lambda>(j, t). \<lparr>page = j, text' = strip (or_empty t)\<rparr>) (List.enumerate i ts) \<and>
        k = n + length (filter (\<lambda>t. strip (or_empty t) = []) ts)"
proof (induction ps arbitrary: i acc n)
  case Nil
  then show ?case by simp
next
  case (Cons p ps)
  then obtain t where t: "extract_text p = Inr t"
    by (cases "extract_text p") auto
  let ?txt = "strip (or_empty t)"
  let ?entry = "\<lambda>(j, t). \<lparr>page = j, text' = strip (or_empty t)\<rparr>"
  from Cons.prems t have
    "extract_loop (i + 1) ps (acc @ [\<lparr>page = i, text' = ?txt\<rparr>]) (if ?txt = [] then n + 1 else n) = Inr (pgs, k)"
    by (simp add: Let_def)
  from Cons.IH [OF this] obtain ts where ts:
    "map extract_text ps = map Inr ts"
    "pgs = (acc @ [\<lparr>page = i, text' = ?txt\<rparr>]) @ map ?entry (List.enumerate (i + 1) ts)"
    "k = (if ?txt = [] then n + 1 else n) + length (filter (\<lambda>t. strip (or_empty t) = []) ts)"
    by blast
  show ?case
    apply (rule exI [of _ "t # ts"])
    using t ts by simp
qed

lemma count_enumerate:
  "image_only_count (map (\<lambda>(j, t). \<lparr>page = j, text' = strip (or_empty t)\<rparr>) (List.enumerate i ts)) =
   length (filter (\<lambda>t. strip (or_empty t) = []) ts)"
  by (induction ts arbitrary: i) (simp_all add: image_only_count_def)

lemma parse_pdf_bytes_Inr:
  assumes "parse_pdf_bytes R d = Inr r"
  shows "\<exists>rd m ps ts.
           R d = Inr rd \<and> reader_metadata rd = Inr m \<and> reader_pages rd = Inr ps \<and>
           map extract_text ps = map Inr ts \<and>
           extract_loop 1 ps [] 0 = Inr (pages r, image_only_count (pages r)) \<and>
           title (metadata r) = clean (or_dict m (lit ''/Title'')) \<and>
           author (metadata r) = clean (or_dict m (lit ''/Author'')) \<and>
           creation_date (metadata r) = clean (or_dict m (lit ''/CreationDate'')) \<and>
           num_pages (metadata r) = length ps \<and>
           pages r = map (\<lambda>(j, t). \<lparr>page = j, text' = strip (or_empty t)\<rparr>) (List.enumerate 1 ts) \<and>
           warnings r = image_only_warnings (image_only_count (pages r)) (length ps)"
proof -
  from assms obtain rd where rd: "R d = Inr rd"
    by (cases "R d") (auto simp: parse_pdf_bytes_def)
  from assms rd obtain md where md: "extract_metadata rd = Inr md"
    by (cases "extract_metadata rd") (auto simp: parse_pdf_bytes_def)
  from assms rd md obtain pgs ws where pw: "extract_pages rd = Inr (pgs, ws)"
    by (cases "extract_pages rd") (auto simp: parse_pdf_bytes_def)
  from assms rd md pw have r: "r = \<lparr>metadata = md, pages = pgs, warnings = ws\<rparr>"
    by (simp add: parse_pdf_bytes_def)
  from md obtain m where m: "reader_metadata rd = Inr m"
    by (cases "reader_metadata rd") (auto simp: extract_metadata_def)
  from pw obtain ps where ps: "reader_pages rd = Inr ps"
    by (cases "reader_pages rd") (auto simp: extract_pages_def)
  from md m ps have md':
    "title md = clean (or_dict m (lit ''/Title''))"
    "author md = clean (or_dict m (lit ''/Author''))"
    "creation_date md = clean (or_dict m (lit ''/CreationDate''))"
    "num_pages md = length ps"
    by (auto simp: extract_metadata_def Let_def)
  from pw ps obtain k where k: "extract_loop 1 ps [] 0 = Inr (pgs, k)"
    and ws: "ws = image_only_warnings k (length ps)"
    by (cases "extract_loop 1 ps [] 0") (auto simp: extract_pages_def)
  from extract_loop_closed [OF k] obtain ts where ts:
    "map extract_text ps = map Inr ts"
    "pgs = map (\<lambda>(j, t). \<lparr>page = j, text' = strip (or_empty t)\<rparr>) (List.enumerate 1 ts)"
    "k = length (filter (\<lambda>t. strip (or_empty t) = []) ts)"
    by auto
  have k': "k = image_only_count pgs"
    using ts(2,3) count_enumerate by simp
  show ?thesis
    using rd m ps ts(1,2) k ws md' r k' by simp
qed

section \<open>Pages and page numbers\<close>

text \<open>
  Claim C1. Whenever \<open>parse_pdf_bytes\<close> returns a result, the length of its \<open>pages\<close> list
  equals \<open>metadata.num_pages\<close>: both come from the \<open>pages\<close> of the same reader, one entry
  per page.
\<close>

theorem pages_length_eq_num_pages:
  assumes "parse_pdf_bytes R d = Inr r"
  shows "length (pages r) = num_pages (metadata r)"
proof -
  from parse_pdf_bytes_Inr [OF assms] obtain ps :: "pdf_page list" and ts where h:
    "map extract_text ps = map Inr ts"
    "num_pages (metadata r) = length ps"
    "pages r = map (\<lambda>(j, t). \<lparr>page = j, text' = strip (or_empty t)\<rparr>) (List.enumerate 1 ts)"
    by blast
  have "length ts = length ps"
    using map_eq_imp_length_eq [OF h(1)] by simp
  then show ?thesis
    using h(2,3) by simp
qed

theorem pages_length_eq_num_pages_witness:
  "parse_pdf_bytes sample_PdfReader sample_bytes = Inr sample_result \<and>
   length (pages sample_result) = num_pages (metadata sample_result) \<and>
   num_pages (metadata sample_result) = 3"
  using pages_length_eq_num_pages [OF sample_parse] sample_parse
  by (simp add: sample_result_def)

text \<open>
  Claim C8. In every parse result the page numbers are 1-based and follow the traversal
  order: the entry at index \<open>i\<close> (from 0) has \<open>page = i + 1\<close>, so the numbers are
  \<open>1, 2, \<dots>\<close> and strictly ascending.
\<close>

theorem page_numbers_one_based:
  assumes "parse_pdf_bytes R d = Inr r"
  shows "(\<forall>i < length (pages r). page (pages r ! i) = i + 1) \<and>
         map page (pages r) = [1..<length (pages r) + 1] \<and>
         sorted_wrt (<) (map page (pages r))"
proof -
  from parse_pdf_bytes_Inr [OF assms] obtain ts where h:
    "pages r = map (\<lambda>(j, t). \<lparr>page = j, text' = strip (or_empty t)\<rparr>) (List.enumerate 1 ts)"
    by blast
  have "map page (pages r) = map fst (List.enumerate 1 ts)"
    using h by (simp add: comp_def case_prod_unfold)
  then have m: "map page (pages r) = [1..<length (pages r) + 1]"
    using h by (simp add: map_fst_enumerate)
  have n: "\<forall>i < length (pages r). page (pages r ! i) = i + 1"
    using h by (simp add: nth_enumerate_eq)
  have "sorted_wrt (<) [1..<length (pages r) + 1]"
    by (rule sorted_wrt_upt)
  with m n show ?thesis by simp
qed

theorem page_numbers_one_based_witness:
  "parse_pdf_bytes sample_PdfReader sample_bytes = Inr sample_result \<and>
   length (pages sample_result) = 3 \<and>
   page (pages sample_result ! 0) = 0 + 1 \<and>
   page (pages sample_result ! 1) = 1 + 1 \<and>
   page (pages sample_result ! 2) = 2 + 1 \<and>
   map page (pages sample_result) = [1, 2, 3]"
  using page_numbers_one_based [OF sample_parse] sample_parse
  by (simp add: sample_result_def)

text \<open>
  Claim C5. The text of each result entry is the extracted text of its page with the white
  space trimmed, so it has no leading or trailing white space; and the counter of
  image-only pages that the loop returns is the number of entries whose text is empty: a
  page counts as image-only exactly when its trimmed text is the empty string.
\<close>

theorem image_only_iff_trimmed_text_empty:
  assumes "parse_pdf_bytes R d = Inr r"
  shows "\<exists>rd ps k.
           R d = Inr rd \<and> reader_pages rd = Inr ps \<and>
           extract_loop 1 ps [] 0 = Inr (pages r, k) \<and>
           length (pages r) = length ps \<and>
           (\<forall>i < length ps. \<exists>t. extract_text (ps ! i) = Inr t \<and>
                                text' (pages r ! i) = strip (or_empty t)) \<and>
           k = image_only_count (pages r) \<and>
           (\<forall>e \<in> set (pages r). no_outer_space (text' e))"
proof -
  let ?entry = "\<lambda>(j :: nat, t). \<lparr>page = j, text' = strip (or_empty t)\<rparr>"
  from parse_pdf_bytes_Inr [OF assms] obtain rd and ps :: "pdf_page list" and ts where h:
    "R d = Inr rd" "reader_pages rd = Inr ps"
    "map extract_text ps = map Inr ts"
    "extract_loop 1 ps [] 0 = Inr (pages r, image_only_count (pages r))"
    "pages r = map ?entry (List.enumerate 1 ts)"
    by blast
  have len: "length ts = length ps"
    using map_eq_imp_length_eq [OF h(3)] by simp
  have texts: "\<forall>i < length ps. \<exists>t. extract_text (ps ! i) = Inr t \<and>
                 text' (pages r ! i) = strip (or_empty t)"
  proof (intro allI impI)
    fix i assume i: "i < length ps"
    then have "map extract_text ps ! i = map Inr ts ! i"
      using h(3) by simp
    then have "extract_text (ps ! i) = Inr (ts ! i)"
      using i len by simp
    moreover have "text' (pages r ! i) = strip (or_empty (ts ! i))"
      using i len h(5) by (simp add: nth_enumerate_eq)
    ultimately show "\<exists>t. extract_text (ps ! i) = Inr t \<and>
                 text' (pages r ! i) = strip (or_empty t)"
      by blast
  qed
  have trimmed: "\<forall>e \<in> set (pages r). no_outer_space (text' e)"
    using h(5) strip_no_outer_space by auto
  have "length (pages r) = length ps"
    using h(5) len by simp
  with h(1,2,4) texts trimmed show ?thesis
    by blast
qed

theorem image_only_iff_trimmed_text_empty_witness:
  "parse_pdf_bytes sample_PdfReader sample_bytes = Inr sample_result \<and>
   (\<exists>rd ps k.
      sample_PdfReader sample_bytes = Inr rd \<and> reader_pages rd = Inr ps \<and>
      extract_loop 1 ps [] 0 = Inr (pages sample_result, k) \<and>
      length (pages sample_result) = length ps \<and>
      (\<forall>i < length ps. \<exists>t. extract_text (ps ! i) = Inr t \<and>
                           text' (pages sample_result ! i) = strip (or_empty t)) \<and>
      k = image_only_count (pages sample_result) \<and>
      (\<forall>e \<in> set (pages sample_result). no_outer_space (text' e))) \<and>
   image_only_count (pages sample_result) = 2"
  using image_only_iff_trimmed_text_empty [OF sample_parse] sample_parse
  by (simp add: sample_result_def image_only_count_def lit_def)

section \<open>Warnings and metadata\<close>

lemma starts_with_append: "starts_with (s @ b) s"
  by (induction s) simp_all

lemma contains_starts_with: "starts_with x s \<Longrightarrow> contains x s"
  by (cases x; cases s) simp_all

lemma contains_append: "contains (a @ s @ b) s"
  by (induction a) (simp_all add: contains_starts_with starts_with_append)

lemma scanned_warning_mentions: "contains scanned_warning (lit ''scanned/image-only'')"
  by code_simp

lemma partial_warning_mentions:
  "contains (partial_warning k n) (str_nat k) \<and> contains (partial_warning k n) (str_nat n)"
proof -
  have "contains ([] @ str_nat k @ (lit '' of '' @ str_nat n @
     lit '' page(s) appear to be '' @
     lit ''image-only and yielded no extractable text.'')) (str_nat k)"
    by (rule contains_append)
  moreover have "contains ((str_nat k @ lit '' of '') @ str_nat n @
     (lit '' page(s) appear to be '' @
     lit ''image-only and yielded no extractable text.'')) (str_nat n)"
    by (rule contains_append)
  ultimately show ?thesis
    by (simp add: partial_warning_def)
qed

text \<open>
  Claim C2. The aggregate warning follows the three-way policy. With \<open>k\<close> the number of
  image-only pages and \<open>n\<close> the page count: if \<open>0 < k = n\<close> the warnings are the single
  message that mentions \<open>scanned/image-only\<close>; if \<open>0 < k < n\<close> they are the single message
  that mentions \<open>k\<close> and \<open>n\<close>; if \<open>k = 0\<close> there is no warning.
\<close>

theorem image_only_warning_policy:
  assumes "parse_pdf_bytes R d = Inr r"
  shows "(0 < image_only_count (pages r) \<and> image_only_count (pages r) = num_pages (metadata r) \<longrightarrow>
            warnings r = [scanned_warning]) \<and>
         (0 < image_only_count (pages r) \<and> image_only_count (pages r) < num_pages (metadata r) \<longrightarrow>
            warnings r = [partial_warning (image_only_count (pages r)) (num_pages (metadata r))]) \<and>
         (image_only_count (pages r) = 0 \<longrightarrow> warnings r = []) \<and>
         contains scanned_warning (lit ''scanned/image-only'') \<and>
         contains (partial_warning (image_only_count (pages r)) (num_pages (metadata r)))
           (str_nat (image_only_count (pages r))) \<and>
         contains (partial_warning (image_only_count (pages r)) (num_pages (metadata r)))
           (str_nat (num_pages (metadata r)))"
proof -
  from parse_pdf_bytes_Inr [OF assms] obtain ps :: "pdf_page list" where h:
    "num_pages (metadata r) = length ps"
    "warnings r = image_only_warnings (image_only_count (pages r)) (length ps)"
    by blast
  show ?thesis
    using h scanned_warning_mentions partial_warning_mentions
    by (auto simp: image_only_warnings_def)
qed

theorem image_only_warning_policy_witness:
  "parse_pdf_bytes sample_PdfReader sample_bytes = Inr sample_result \<and>
   0 < image_only_count (pages sample_result) \<and>
   image_only_count (pages sample_result) < num_pages (metadata sample_result) \<and>
   warnings sample_result = [partial_warning 2 3] \<and>
   partial_warning 2 3 =
     lit ''2 of 3 page(s) appear to be image-only and yielded no extractable text.'' \<and>
   parse_pdf_bytes blank_PdfReader [] = Inr blank_result \<and>
   0 < image_only_count (pages blank_result) \<and>
   image_only_count (pages blank_result) = num_pages (metadata blank_result) \<and>
   warnings blank_result = [scanned_warning] \<and>
   parse_pdf_bytes repairing_PdfReader [] = Inr repaired_result \<and>
   image_only_count (pages repaired_result) = 0 \<and>
   warnings repaired_result = []"
proof -
  have c: "image_only_count (pages sample_result) = 2"
    by (simp add: sample_result_def image_only_count_def lit_def)
  have n: "num_pages (metadata sample_result) = 3"
    by (simp add: sample_result_def)
  have "0 < image_only_count (pages sample_result) \<and>
        image_only_count (pages sample_result) < num_pages (metadata sample_result) \<and>
        warnings sample_result = [partial_warning 2 3]"
    using image_only_warning_policy [OF sample_parse] unfolding c n by simp
  moreover have "partial_warning 2 3 =
     lit ''2 of 3 page(s) appear to be image-only and yielded no extractable text.''"
    by (simp add: lit_def partial_warning_def str_nat.simps)
  moreover have "0 < image_only_count (pages blank_result) \<and>
        image_only_count (pages blank_result) = num_pages (metadata blank_result) \<and>
        warnings blank_result = [scanned_warning]"
    using image_only_warning_policy [OF blank_parse]
    by (simp add: blank_result_def image_only_count_def)
  moreover have "image_only_count (pages repaired_result) = 0 \<and> warnings repaired_result = []"
    using image_only_warning_policy [OF repaired_parse]
    by (simp add: repaired_result_def image_only_count_def lit_def)
  ultimately show ?thesis
    using sample_parse blank_parse repaired_parse by simp
qed

text \<open>
  Claim C3. Each of \<open>title\<close>, \<open>author\<close> and \<open>creation_date\<close> is the trimmed value of its
  Info entry, and is absent when the entry is missing or empty after trimming; it is
  never the empty string.
\<close>

theorem metadata_fields_trimmed_or_absent:
  assumes "parse_pdf_bytes R d = Inr r"
  shows "\<exists>rd m.
           R d = Inr rd \<and> reader_metadata rd = Inr m \<and>
           title (metadata r) = reported_field (or_dict m) (lit ''/Title'') \<and>
           author (metadata r) = reported_field (or_dict m) (lit ''/Author'') \<and>
           creation_date (metadata r) = reported_field (or_dict m) (lit ''/CreationDate'') \<and>
           title (metadata r) \<noteq> Some [] \<and>
           author (metadata r) \<noteq> Some [] \<and>
           creation_date (metadata r) \<noteq> Some []"
proof -
  have c: "clean v = (case v of None \<Rightarrow> None
             | Some x \<Rightarrow> (if strip (py_str x) = [] then None else Some (strip (py_str x))))" for v
    by (simp add: clean_def or_None_def split: option.splits)
  have n: "reported_field info key \<noteq> Some []" for info key
    by (simp add: reported_field_def split: option.splits)
  from parse_pdf_bytes_Inr [OF assms] obtain rd m where h:
    "R d = Inr rd" "reader_metadata rd = Inr m"
    "title (metadata r) = clean (or_dict m (lit ''/Title''))"
    "author (metadata r) = clean (or_dict m (lit ''/Author''))"
    "creation_date (metadata r) = clean (or_dict m (lit ''/CreationDate''))"
    by blast
  have "title (metadata r) = reported_field (or_dict m) (lit ''/Title'')"
    "author (metadata r) = reported_field (or_dict m) (lit ''/Author'')"
    "creation_date (metadata r) = reported_field (or_dict m) (lit ''/CreationDate'')"
    using h(3-5) by (simp_all only: c reported_field_def)
  with h(1,2) n show ?thesis
    by metis
qed

theorem metadata_fields_trimmed_or_absent_witness:
  "parse_pdf_bytes sample_PdfReader sample_bytes = Inr sample_result \<and>
   (\<exists>rd m.
      sample_PdfReader sample_bytes = Inr rd \<and> reader_metadata rd = Inr m \<and>
      title (metadata sample_result) = reported_field (or_dict m) (lit ''/Title'') \<and>
      author (metadata sample_result) = reported_field (or_dict m) (lit ''/Author'') \<and>
      creation_date (metadata sample_result) = reported_field (or_dict m) (lit ''/CreationDate'') \<and>
      title (metadata sample_result) \<noteq> Some [] \<and>
      author (metadata sample_result) \<noteq> Some [] \<and>
      creation_date (metadata sample_result) \<noteq> Some []) \<and>
   title (metadata sample_result) = Some (lit ''Report'') \<and>
   author (metadata sample_result) = None \<and>
   creation_date (metadata sample_result) = None"
  using metadata_fields_trimmed_or_absent [OF sample_parse] sample_parse
  by (simp add: sample_result_def)

text \<open>
  Claim C4, as stated: the warnings are empty if and only if no page is image-only and no
  structural damage was met. It fails for a document that the library repaired while
  reading: the page has text, so the warnings are empty, although damage was met. The
  parser has no warning for damage; it only sees what the reader returns.
\<close>

theorem warnings_empty_iff_damage_counterexample:
  "parse_pdf_bytes repairing_PdfReader [] = Inr repaired_result \<and>
   repairing_PdfReader [] = Inr repaired_reader \<and>
   \<not> (warnings repaired_result = [] \<longleftrightarrow>
        image_only_count (pages repaired_result) = 0 \<and> \<not> logged_damage repaired_reader)"
  using repaired_parse
  by (simp add: repaired_result_def repaired_reader_def repairing_PdfReader_def
      image_only_count_def lit_def)

text \<open>
  Claim C4, amended: in every parse result the warnings list is empty if and only if no
  page was classified image-only.
\<close>

theorem warnings_empty_iff_no_image_only:
  assumes "parse_pdf_bytes R d = Inr r"
  shows "warnings r = [] \<longleftrightarrow> image_only_count (pages r) = 0"
proof -
  from parse_pdf_bytes_Inr [OF assms] obtain ps :: "pdf_page list" where h:
    "warnings r = image_only_warnings (image_only_count (pages r)) (length ps)"
    by blast
  show ?thesis
    unfolding h by (simp add: image_only_warnings_def)
qed

theorem warnings_empty_iff_no_image_only_witness:
  "parse_pdf_bytes repairing_PdfReader [] = Inr repaired_result \<and>
   (warnings repaired_result = [] \<longleftrightarrow> image_only_count (pages repaired_result) = 0) \<and>
   warnings repaired_result = []"
  using warnings_empty_iff_no_image_only [OF repaired_parse] repaired_parse
  by (simp add: repaired_result_def)

text \<open>
  Claim C10. For a path that names an existing regular file, \<open>parse_pdf\<close> returns exactly
  what \<open>parse_pdf_bytes\<close> returns for the contents of the file.
\<close>

theorem parse_pdf_reads_then_parses:
  assumes "fs (Path_str path) = RegularFile data"
  shows "parse_pdf R fs path = parse_pdf_bytes R data"
  using assms by (simp add: parse_pdf_def)

theorem parse_pdf_reads_then_parses_witness:
  "sample_fs (Path_str (lit ''/srv/a.pdf'')) = RegularFile sample_bytes \<and>
   parse_pdf sample_PdfReader sample_fs (lit ''/srv/a.pdf'') =
     parse_pdf_bytes sample_PdfReader sample_bytes \<and>
   parse_pdf sample_PdfReader sample_fs (lit ''/srv/a.pdf'') = Inr sample_result"
proof -
  have f: "sample_fs (Path_str (lit ''/srv/a.pdf'')) = RegularFile sample_bytes"
    by (simp add: sample_fs_def Path_str_def path_root_def lit_def)
  show ?thesis
    using f parse_pdf_reads_then_parses [of sample_fs "lit ''/srv/a.pdf''" sample_bytes sample_PdfReader]
      sample_parse by simp
qed

section \<open>The upload endpoint\<close>

lemma lower_char_eq:
  "lower_char x = 46 \<longleftrightarrow> x = 46"
  "lower_char x = 112 \<longleftrightarrow> x = 80 \<or> x = 112"
  "lower_char x = 100 \<longleftrightarrow> x = 68 \<or> x = 100"
  "lower_char x = 102 \<longleftrightarrow> x = 70 \<or> x = 102"
  by (auto simp: lower_char_def)

lemma lit_pdf: "lit ''.pdf'' = [46, 112, 100, 102]"
  by (simp add: lit_def)

lemma endswith_pdf_iff: "endswith (lower name) (lit ''.pdf'') \<longleftrightarrow> pdf_name_hint name"
proof -
  have "endswith (lower name) (lit ''.pdf'') \<longleftrightarrow>
        take (Suc (Suc (Suc (Suc 0)))) (map lower_char (rev name)) = [102, 100, 112, 46]"
    by (simp add: endswith_def lower_def lit_pdf rev_map)
  also have "\<dots> \<longleftrightarrow> (case rev name of
        c # b # a # dot # _ \<Rightarrow>
          dot = 46 \<and> (a = 80 \<or> a = 112) \<and> (b = 68 \<or> b = 100) \<and> (c = 70 \<or> c = 102)
      | _ \<Rightarrow> False)"
    by (auto simp: lower_char_eq split: list.splits)
  finally show ?thesis
    by (simp add: pdf_name_hint_def)
qed

lemma max_content_length: "MAX_CONTENT_LENGTH = 50 * 2 ^ 20"
  by (simp add: MAX_CONTENT_LENGTH_def)

lemma api_parse_upload_rejected:
  assumes "upload_rejected req"
  shows "api_parse_upload R req = api_parse_upload R' req"
    and "400 \<le> status (api_parse_upload R req)" and "status (api_parse_upload R req) < 500"
  using assms
  by (auto simp: upload_rejected_def api_parse_upload_def request_files_def
      max_content_length endswith_pdf_iff split: option.splits)

lemma api_parse_upload_form_limit:
  assumes "form_limit_exceeded req"
  shows "api_parse_upload R req = \<lparr>status = 413, response_body = FrameworkPage\<rparr>"
  using assms by (simp add: api_parse_upload_def request_files_def)

lemma api_parse_upload_accepted:
  assumes "\<not> upload_rejected req" "\<not> form_limit_exceeded req"
  shows "\<exists>uploaded. files req (lit ''file'') = Some uploaded \<and>
           api_parse_upload R req =
             (case parse_pdf_bytes R (file_data uploaded) of
                Inl (PdfReadError m) \<Rightarrow>
                  \<lparr>status = 422,
                   response_body = JsonError (lit ''Invalid or corrupted PDF: '' @ m)\<rparr>
              | Inl e \<Rightarrow> \<lparr>status = 500, response_body = JsonError (exn_str e)\<rparr>
              | Inr result \<Rightarrow> \<lparr>status = 200, response_body = JsonResult result\<rparr>)"
  using assms
  by (auto simp: upload_rejected_def api_parse_upload_def request_files_def
      max_content_length endswith_pdf_iff split: option.splits)

text \<open>
  Claim C7. An upload that is larger than 50 MiB, has no file field, has an empty file name
  or a file name that does not end in \<open>.pdf\<close> (in any case) gets a 4xx response that does
  not depend on the library, so the engine is not consulted. An upload that runs into a
  limit of the form parser gets 413. Any other upload is parsed: a result is returned with
  status 200 as the body, a \<open>PdfReadError\<close> gives 422, and any other exception gives 500.
\<close>

theorem upload_endpoint_contract:
  "(upload_rejected req \<longrightarrow>
      400 \<le> status (api_parse_upload R req) \<and> status (api_parse_upload R req) < 500 \<and>
      (\<forall>R'. api_parse_upload R' req = api_parse_upload R req)) \<and>
   (form_limit_exceeded req \<longrightarrow>
      api_parse_upload R req = \<lparr>status = 413, response_body = FrameworkPage\<rparr>) \<and>
   (\<not> upload_rejected req \<and> \<not> form_limit_exceeded req \<longrightarrow>
      (\<exists>uploaded. files req (lit ''file'') = Some uploaded \<and>
         (\<forall>result. parse_pdf_bytes R (file_data uploaded) = Inr result \<longrightarrow>
            api_parse_upload R req = \<lparr>status = 200, response_body = JsonResult result\<rparr>) \<and>
         (\<forall>m. parse_pdf_bytes R (file_data uploaded) = Inl (PdfReadError m) \<longrightarrow>
            api_parse_upload R req =
              \<lparr>status = 422, response_body = JsonError (lit ''Invalid or corrupted PDF: '' @ m)\<rparr>) \<and>
         (\<forall>e. parse_pdf_bytes R (file_data uploaded) = Inl e \<longrightarrow> (\<forall>m. e \<noteq> PdfReadError m) \<longrightarrow>
            api_parse_upload R req = \<lparr>status = 500, response_body = JsonError (exn_str e)\<rparr>)))"
proof (intro conjI impI)
  assume r: "upload_rejected req"
  show "400 \<le> status (api_parse_upload R req)"
    using r by (rule api_parse_upload_rejected(2))
  show "status (api_parse_upload R req) < 500"
    using r by (rule api_parse_upload_rejected(3))
  show "\<forall>R'. api_parse_upload R' req = api_parse_upload R req"
    using api_parse_upload_rejected(1) [OF r] by blast
next
  assume "form_limit_exceeded req"
  then show "api_parse_upload R req = \<lparr>status = 413, response_body = FrameworkPage\<rparr>"
    by (rule api_parse_upload_form_limit)
next
  assume a: "\<not> upload_rejected req \<and> \<not> form_limit_exceeded req"
  from api_parse_upload_accepted [of req R] a obtain uploaded where u:
    "files req (lit ''file'') = Some uploaded"
    "api_parse_upload R req =
       (case parse_pdf_bytes R (file_data uploaded) of
          Inl (PdfReadError m) \<Rightarrow>
            \<lparr>status = 422, response_body = JsonError (lit ''Invalid or corrupted PDF: '' @ m)\<rparr>
        | Inl e \<Rightarrow> \<lparr>status = 500, response_body = JsonError (exn_str e)\<rparr>
        | Inr result \<Rightarrow> \<lparr>status = 200, response_body = JsonResult result\<rparr>)"
    by blast
  have "\<forall>e. parse_pdf_bytes R (file_data uploaded) = Inl e \<longrightarrow> (\<forall>m. e \<noteq> PdfReadError m) \<longrightarrow>
            api_parse_upload R req = \<lparr>status = 500, response_body = JsonError (exn_str e)\<rparr>"
    using u(2) by (auto split: exn.splits)
  moreover have "\<forall>result. parse_pdf_bytes R (file_data uploaded) = Inr result \<longrightarrow>
            api_parse_upload R req = \<lparr>status = 200, response_body = JsonResult result\<rparr>"
    using u(2) by simp
  moreover have "\<forall>m. parse_pdf_bytes R (file_data uploaded) = Inl (PdfReadError m) \<longrightarrow>
            api_parse_upload R req =
              \<lparr>status = 422, response_body = JsonError (lit ''Invalid or corrupted PDF: '' @ m)\<rparr>"
    using u(2) by simp
  ultimately show "\<exists>uploaded. files req (lit ''file'') = Some uploaded \<and>
         (\<forall>result. parse_pdf_bytes R (file_data uploaded) = Inr result \<longrightarrow>
            api_parse_upload R req = \<lparr>status = 200, response_body = JsonResult result\<rparr>) \<and>
         (\<forall>m. parse_pdf_bytes R (file_data uploaded) = Inl (PdfReadError m) \<longrightarrow>
            api_parse_upload R req =
              \<lparr>status = 422, response_body = JsonError (lit ''Invalid or corrupted PDF: '' @ m)\<rparr>) \<and>
         (\<forall>e. parse_pdf_bytes R (file_data uploaded) = Inl e \<longrightarrow> (\<forall>m. e \<noteq> PdfReadError m) \<longrightarrow>
            api_parse_upload R req = \<lparr>status = 500, response_body = JsonError (exn_str e)\<rparr>)"
    using u(1) by blast
qed

lemma text_upload_rejected: "upload_rejected text_upload"
  by (simp add: upload_rejected_def text_upload_def pdf_name_hint_def lit_def)

lemma oversized_upload_rejected: "upload_rejected oversized_upload"
  by (simp add: upload_rejected_def oversized_upload_def)

lemma sample_upload_accepted:
  "\<not> upload_rejected sample_upload" "\<not> form_limit_exceeded sample_upload"
  by (simp_all add: upload_rejected_def sample_upload_def pdf_name_hint_def lit_def)

lemma many_parts_upload_limit:
  "\<not> upload_rejected many_parts_upload" "form_limit_exceeded many_parts_upload"
  by (simp_all add: upload_rejected_def many_parts_upload_def pdf_name_hint_def lit_def)

theorem upload_endpoint_contract_witness:
  "upload_rejected text_upload \<and>
   status (api_parse_upload sample_PdfReader text_upload) = 400 \<and>
   api_parse_upload blank_PdfReader text_upload = api_parse_upload sample_PdfReader text_upload \<and>
   upload_rejected oversized_upload \<and>
   status (api_parse_upload sample_PdfReader oversized_upload) = 413 \<and>
   form_limit_exceeded many_parts_upload \<and>
   status (api_parse_upload sample_PdfReader many_parts_upload) = 413 \<and>
   \<not> upload_rejected sample_upload \<and> \<not> form_limit_exceeded sample_upload \<and>
   api_parse_upload sample_PdfReader sample_upload =
     \<lparr>status = 200, response_body = JsonResult sample_result\<rparr>"
proof -
  have "files sample_upload (lit ''file'') =
          Some \<lparr>filename = lit ''Report.PDF'', file_data = sample_bytes\<rparr>"
    by (simp add: sample_upload_def)
  then have ok: "api_parse_upload sample_PdfReader sample_upload =
     \<lparr>status = 200, response_body = JsonResult sample_result\<rparr>"
    using upload_endpoint_contract [of sample_upload sample_PdfReader]
      sample_upload_accepted sample_parse by auto
  have same: "api_parse_upload blank_PdfReader text_upload =
              api_parse_upload sample_PdfReader text_upload"
    using upload_endpoint_contract [of text_upload sample_PdfReader] text_upload_rejected
    by blast
  have many: "status (api_parse_upload sample_PdfReader many_parts_upload) = 413"
    using upload_endpoint_contract [of many_parts_upload sample_PdfReader]
      many_parts_upload_limit by simp
  have "status (api_parse_upload sample_PdfReader text_upload) = 400"
    by (simp add: api_parse_upload_def request_files_def text_upload_def
        MAX_CONTENT_LENGTH_def endswith_def lower_def lower_char_def lit_def)
  moreover have "status (api_parse_upload sample_PdfReader oversized_upload) = 413"
    by (simp add: api_parse_upload_def request_files_def oversized_upload_def
        MAX_CONTENT_LENGTH_def)
  ultimately show ?thesis
    using ok same many text_upload_rejected oversized_upload_rejected sample_upload_accepted
      many_parts_upload_limit by simp
qed

section \<open>Path errors\<close>















end
